theory Spec2Isabelle
  imports Complex_Main
begin

section \<open>JavaScript values\<close>

text \<open>
  The error handler and the HTTP client receive values of TypeScript type \<open>any\<close>. They are
  modelled by the datatype below: \<open>undefined\<close>, \<open>null\<close>, booleans, numbers, strings and plain
  objects whose properties are data properties (an association list, looked up by the first
  match). Numbers are the integers and \<open>NaN\<close>; an integer stands for the double of the same
  value, which is exact below \<open>2^53\<close>. Strings are lists of 8-bit characters. Functions,
  symbols, arrays, accessors and proxies are outside this universe.
\<close>

datatype jsval =
    JUndefined
  | JNull
  | JBool bool
  | JNum int
  | JNaN
  | JStr string
  | JObj "(string \<times> jsval) list"

text \<open>Truthiness, as \<open>if (v)\<close>, \<open>!v\<close>, \<open>a || b\<close> and \<open>a && b\<close> test it.\<close>

fun truthy :: "jsval \<Rightarrow> bool" where
  "truthy JUndefined = False"
| "truthy JNull = False"
| "truthy (JBool b) = b"
| "truthy (JNum n) = (n \<noteq> 0)"
| "truthy JNaN = False"
| "truthy (JStr s) = (s \<noteq> [])"
| "truthy (JObj ps) = True"

text \<open>\<open>a || b\<close>: the left operand when it is truthy, the right one otherwise.\<close>

definition js_or :: "jsval \<Rightarrow> jsval \<Rightarrow> jsval" where
  "js_or a b = (if truthy a then a else b)"

text \<open>
  Property read \<open>v?.k\<close>: \<open>undefined\<close> on \<open>null\<close> and \<open>undefined\<close>, the property of an object,
  and \<open>undefined\<close> on the other primitives (none of the property names the code reads is a
  property of a string, number or boolean). The plain read \<open>v.k\<close> differs only on \<open>null\<close>
  and \<open>undefined\<close>, where it throws; the code uses it only on values it has tested to be
  truthy.
\<close>

fun get :: "jsval \<Rightarrow> string \<Rightarrow> jsval" where
  "get (JObj ps) k = (case map_of ps k of Some v \<Rightarrow> v | None \<Rightarrow> JUndefined)"
| "get _ k = JUndefined"

text \<open>The \<open>TypeError\<close> raised when a method is called on a value that does not have it.\<close>

definition type_error :: "string \<Rightarrow> jsval" where
  "type_error msg = JObj [(''name'', JStr ''TypeError''), (''message'', JStr msg)]"

subsection \<open>Strings\<close>

definition lower_char :: "char \<Rightarrow> char" where
  "lower_char c =
     (case map_of (zip ''ABCDEFGHIJKLMNOPQRSTUVWXYZ'' ''abcdefghijklmnopqrstuvwxyz'') c of
        Some l \<Rightarrow> l
      | None \<Rightarrow> c)"

text \<open>\<open>s.startsWith(p)\<close> and \<open>s.includes(p)\<close> on strings.\<close>

definition startsWith :: "string \<Rightarrow> string \<Rightarrow> bool" where
  "startsWith s p = (take (length p) s = p)"

fun includes_str :: "string \<Rightarrow> string \<Rightarrow> bool" where
  "includes_str [] p = (p = [])"
| "includes_str (c # cs) p = (startsWith (c # cs) p \<or> includes_str cs p)"

text \<open>
  \<open>v.toLowerCase()\<close> and \<open>v.includes(p)\<close> on an arbitrary value that is neither \<open>null\<close> nor
  \<open>undefined\<close>: only a string has these methods, on every other value of the model the call
  throws a \<open>TypeError\<close>. Only the ASCII letters are case-mapped.
\<close>

fun toLowerCase :: "jsval \<Rightarrow> jsval + string" where
  "toLowerCase (JStr s) = Inr (map lower_char s)"
| "toLowerCase _ = Inl (type_error ''toLowerCase is not a function'')"

fun includes_method :: "jsval \<Rightarrow> string \<Rightarrow> jsval + bool" where
  "includes_method (JStr s) p = Inr (includes_str s p)"
| "includes_method _ p = Inl (type_error ''includes is not a function'')"

subsection \<open>Numbers\<close>

definition is_space :: "char \<Rightarrow> bool" where
  "is_space c = (c \<in> set [CHR 0x09, CHR 0x0A, CHR 0x0B, CHR 0x0C, CHR 0x0D, CHR 0x20, CHR 0xA0])"

definition digit_val :: "char \<Rightarrow> nat option" where
  "digit_val c = map_of (zip ''0123456789'' [0, 1, 2, 3, 4, 5, 6, 7, 8, 9]) c"

definition hex_val :: "char \<Rightarrow> nat option" where
  "hex_val c =
     map_of (zip ''0123456789abcdefABCDEF''
       [0, 1, 2, 3, 4, 5, 6, 7, 8, 9, 10, 11, 12, 13, 14, 15, 10, 11, 12, 13, 14, 15]) c"

text \<open>The value of the longest prefix of digits, and whether that prefix is non-empty.\<close>

fun digits_prefix :: "(char \<Rightarrow> nat option) \<Rightarrow> nat \<Rightarrow> nat \<Rightarrow> bool \<Rightarrow> string \<Rightarrow> nat option" where
  "digits_prefix dv radix acc seen [] = (if seen then Some acc else None)"
| "digits_prefix dv radix acc seen (c # cs) =
     (case dv c of
        Some d \<Rightarrow> digits_prefix dv radix (acc * radix + d) True cs
      | None \<Rightarrow> (if seen then Some acc else None))"

text \<open>
  \<open>parseInt(s)\<close> on a string, with no radix given: leading white space is skipped, a sign is
  read, a prefix \<open>0x\<close> or \<open>0X\<close> selects radix 16, and the longest prefix of digits is the
  value; \<open>None\<close> stands for \<open>NaN\<close>.
\<close>

definition parseInt_string :: "string \<Rightarrow> int option" where
  "parseInt_string s =
     (let t = dropWhile is_space s;
          neg = (t \<noteq> [] \<and> hd t = CHR ''-'');
          u = (if t \<noteq> [] \<and> (hd t = CHR ''-'' \<or> hd t = CHR ''+'') then tl t else t);
          hex = (startsWith u ''0x'' \<or> startsWith u ''0X'');
          r = (if hex then digits_prefix hex_val 16 0 False (drop 2 u)
               else digits_prefix digit_val 10 0 False u)
      in case r of
           None \<Rightarrow> None
         | Some n \<Rightarrow> Some (if neg then - int n else int n))"

text \<open>The decimal digits of a natural number, and \<open>String(n)\<close> for an integer.\<close>

fun show_nat :: "nat \<Rightarrow> string" where
  "show_nat n =
     (if n < 10 then [''0123456789'' ! n]
      else show_nat (n div 10) @ [''0123456789'' ! (n mod 10)])"

definition show_int :: "int \<Rightarrow> string" where
  "show_int i = (if i < 0 then CHR ''-'' # show_nat (nat (- i)) else show_nat (nat i))"

text \<open>
  \<open>String(v)\<close>, the conversion \<open>parseInt\<close> applies to its argument first. An integer is
  printed in full (as JavaScript does below \<open>10^21\<close>), and an object is taken to have no own
  \<open>toString\<close> or \<open>valueOf\<close> property.
\<close>

fun to_string :: "jsval \<Rightarrow> string" where
  "to_string JUndefined = ''undefined''"
| "to_string JNull = ''null''"
| "to_string (JBool b) = (if b then ''true'' else ''false'')"
| "to_string (JNum n) = show_int n"
| "to_string JNaN = ''NaN''"
| "to_string (JStr s) = s"
| "to_string (JObj ps) = ''[object Object]''"

definition parseInt :: "jsval \<Rightarrow> jsval" where
  "parseInt v = (case parseInt_string (to_string v) of None \<Rightarrow> JNaN | Some n \<Rightarrow> JNum n)"

text \<open>\<open>v * 1000\<close> on a number.\<close>

fun times1000 :: "jsval \<Rightarrow> jsval" where
  "times1000 (JNum n) = JNum (n * 1000)"
| "times1000 _ = JNaN"

text \<open>
  The number a value is converted to by the relational operators; \<open>None\<close> stands for
  \<open>NaN\<close>. A string converts to a number when, trimmed of white space, it is empty (zero) or
  an optionally signed sequence of decimal digits; literals with a fraction, an exponent
  or a radix prefix are not integers of this model and count as \<open>NaN\<close>. An object is taken
  to have no own \<open>toString\<close> or \<open>valueOf\<close> property, so that it converts to \<open>NaN\<close>.
\<close>

definition string_to_number :: "string \<Rightarrow> int option" where
  "string_to_number s =
     (let t = rev (dropWhile is_space (rev (dropWhile is_space s)));
          neg = (t \<noteq> [] \<and> hd t = CHR ''-'');
          u = (if t \<noteq> [] \<and> (hd t = CHR ''-'' \<or> hd t = CHR ''+'') then tl t else t)
      in if t = [] then Some 0
         else if u \<noteq> [] \<and> list_all (\<lambda>c. digit_val c \<noteq> None) u
         then (case digits_prefix digit_val 10 0 False u of
                 None \<Rightarrow> None
               | Some n \<Rightarrow> Some (if neg then - int n else int n))
         else None)"

fun to_number :: "jsval \<Rightarrow> int option" where
  "to_number JUndefined = None"
| "to_number JNull = Some 0"
| "to_number (JBool b) = Some (if b then 1 else 0)"
| "to_number (JNum n) = Some n"
| "to_number JNaN = None"
| "to_number (JStr s) = string_to_number s"
| "to_number (JObj ps) = None"

text \<open>\<open>v >= n\<close> and \<open>v < n\<close> against a number literal: false when \<open>v\<close> converts to \<open>NaN\<close>.\<close>

definition js_ge :: "jsval \<Rightarrow> int \<Rightarrow> bool" where
  "js_ge v n = (case to_number v of None \<Rightarrow> False | Some i \<Rightarrow> n \<le> i)"

definition js_lt :: "jsval \<Rightarrow> int \<Rightarrow> bool" where
  "js_lt v n = (case to_number v of None \<Rightarrow> False | Some i \<Rightarrow> i < n)"

text \<open>The numeric value of a number, as a delay in milliseconds.\<close>

fun number_value :: "jsval \<Rightarrow> real" where
  "number_value (JNum n) = real_of_int n"
| "number_value _ = 0"

subsection \<open>JSON.stringify\<close>

definition json_escape_char :: "char \<Rightarrow> string" where
  "json_escape_char c =
     (if c = CHR 0x22 then [CHR 0x5C, CHR 0x22]
      else if c = CHR 0x5C then [CHR 0x5C, CHR 0x5C]
      else if c = CHR 0x08 then [CHR 0x5C, CHR ''b'']
      else if c = CHR 0x09 then [CHR 0x5C, CHR ''t'']
      else if c = CHR 0x0A then [CHR 0x5C, CHR ''n'']
      else if c = CHR 0x0C then [CHR 0x5C, CHR ''f'']
      else if c = CHR 0x0D then [CHR 0x5C, CHR ''r'']
      else if (of_char c :: nat) < 32
      then [CHR 0x5C, CHR ''u'', CHR ''0'', CHR ''0'',
            ''0123456789abcdef'' ! ((of_char c :: nat) div 16),
            ''0123456789abcdef'' ! ((of_char c :: nat) mod 16)]
      else [c])"

definition json_quote :: "string \<Rightarrow> string" where
  "json_quote s = CHR 0x22 # concat (map json_escape_char s) @ [CHR 0x22]"

fun join_comma :: "string list \<Rightarrow> string" where
  "join_comma [] = []"
| "join_comma [x] = x"
| "join_comma (x # y # ys) = x @ '','' @ join_comma (y # ys)"

text \<open>
  \<open>JSON.stringify(v)\<close>; \<open>None\<close> stands for the result \<open>undefined\<close>. A property whose value
  is \<open>undefined\<close> is left out, \<open>NaN\<close> is written \<open>null\<close>. The values of the model have no
  cycles, so the call does not throw.
\<close>

fun JSON_stringify :: "jsval \<Rightarrow> string option"
  and stringify_props :: "(string \<times> jsval) list \<Rightarrow> string list" where
  "JSON_stringify JUndefined = None"
| "JSON_stringify JNull = Some ''null''"
| "JSON_stringify (JBool b) = Some (if b then ''true'' else ''false'')"
| "JSON_stringify (JNum n) = Some (show_int n)"
| "JSON_stringify JNaN = Some ''null''"
| "JSON_stringify (JStr s) = Some (json_quote s)"
| "JSON_stringify (JObj ps) = Some (''{'' @ join_comma (stringify_props ps) @ ''}'')"
| "stringify_props [] = []"
| "stringify_props (kv # ps) =
     (case JSON_stringify (snd kv) of
        None \<Rightarrow> stringify_props ps
      | Some t \<Rightarrow> (json_quote (fst kv) @ '':'' @ t) # stringify_props ps)"

section \<open>Error classification (ErrorTypes, ErrorHandler)\<close>

datatype ErrorCategory =
  NETWORK | AUTHENTICATION | AUTHORIZATION | VALIDATION | BUSINESS | SYSTEM | UNKNOWN

definition extractStatusCode :: "jsval \<Rightarrow> jsval" where
  "extractStatusCode error =
     js_or (js_or (js_or (get error ''status'') (get error ''statusCode''))
                  (get (get error ''response'') ''status''))
           (get (get error ''response'') ''statusCode'')"

definition extractErrorCode :: "jsval \<Rightarrow> jsval" where
  "extractErrorCode error =
     js_or (js_or (get error ''code'') (get (get error ''error'') ''code''))
           (get (get (get (get error ''response'') ''data'') ''error'') ''code'')"

definition extractMessage :: "jsval \<Rightarrow> jsval" where
  "extractMessage error =
     (if \<not> truthy error then JStr ''An unknown error occurred''
      else if truthy (get (get error ''error'') ''message'')
      then get (get error ''error'') ''message''
      else if truthy (get error ''message'') then get error ''message''
      else (case error of
              JStr s \<Rightarrow> JStr s
            | _ \<Rightarrow> (case JSON_stringify error of Some t \<Rightarrow> JStr t | None \<Rightarrow> JUndefined)))"

text \<open>
  \<open>isNetworkError\<close>. Both \<open>toLowerCase\<close> calls are made on \<open>error.message || ""\<close> and
  \<open>error.code || ""\<close>, which are strings only when the property is falsy or a string.
\<close>

definition isNetworkError :: "jsval \<Rightarrow> jsval + bool" where
  "isNetworkError error =
     (if \<not> truthy error then Inr False
      else case toLowerCase (js_or (get error ''message'') (JStr [])) of
        Inl e \<Rightarrow> Inl e
      | Inr message \<Rightarrow>
         (case toLowerCase (js_or (get error ''code'') (JStr [])) of
            Inl e \<Rightarrow> Inl e
          | Inr code \<Rightarrow>
              Inr (includes_str message ''network'' \<or>
                   includes_str message ''fetch'' \<or>
                   includes_str message ''connection'' \<or>
                   includes_str message ''timeout'' \<or>
                   code = ''econnrefused'' \<or>
                   code = ''enetunreach'' \<or>
                   code = ''etimedout'' \<or>
                   get error ''name'' = JStr ''NetworkError'' \<or>
                   (get error ''name'' = JStr ''TypeError'' \<and> includes_str message ''fetch''))))"

definition isAuthenticationError :: "jsval \<Rightarrow> bool" where
  "isAuthenticationError error =
     (let statusCode = extractStatusCode error
      in statusCode = JNum 401 \<or>
         get error ''code'' = JStr ''UNAUTHORIZED'' \<or>
         get error ''name'' = JStr ''UnauthorizedError'')"

definition isAuthorizationError :: "jsval \<Rightarrow> bool" where
  "isAuthorizationError error =
     (let statusCode = extractStatusCode error
      in statusCode = JNum 403 \<or>
         get error ''code'' = JStr ''FORBIDDEN'' \<or>
         get error ''name'' = JStr ''ForbiddenError'')"

text \<open>
  \<open>isValidationError\<close>, as the truth value its caller tests. The last operand calls
  \<open>includes\<close> on \<open>error.error.code\<close> whenever that value is truthy.
\<close>

definition isValidationError :: "jsval \<Rightarrow> jsval + bool" where
  "isValidationError error =
     (let statusCode = extractStatusCode error
      in if statusCode = JNum 400 \<or>
            get error ''code'' = JStr ''VALIDATION_ERROR'' \<or>
            get error ''name'' = JStr ''ValidationError''
         then Inr True
         else if truthy (get (get error ''error'') ''code'')
         then includes_method (get (get error ''error'') ''code'') ''Validation''
         else Inr False)"

definition isBusinessError :: "jsval \<Rightarrow> bool" where
  "isBusinessError error =
     (let statusCode = extractStatusCode error
      in js_ge statusCode 400 \<and> js_lt statusCode 500 \<and>
         statusCode \<noteq> JNum 401 \<and> statusCode \<noteq> JNum 403 \<and> statusCode \<noteq> JNum 400)"

definition isSystemError :: "jsval \<Rightarrow> bool" where
  "isSystemError error =
     (let statusCode = extractStatusCode error
      in js_ge statusCode 500 \<and> js_lt statusCode 600)"

definition categorize :: "jsval \<Rightarrow> jsval + ErrorCategory" where
  "categorize error =
     (case isNetworkError error of
        Inl e \<Rightarrow> Inl e
      | Inr True \<Rightarrow> Inr NETWORK
      | Inr False \<Rightarrow>
          if isAuthenticationError error then Inr AUTHENTICATION
          else if isAuthorizationError error then Inr AUTHORIZATION
          else (case isValidationError error of
                  Inl e \<Rightarrow> Inl e
                | Inr True \<Rightarrow> Inr VALIDATION
                | Inr False \<Rightarrow>
                    if isBusinessError error then Inr BUSINESS
                    else if isSystemError error then Inr SYSTEM
                    else Inr UNKNOWN))"

definition ErrorHandler_shouldRetry :: "jsval \<Rightarrow> jsval + bool" where
  "ErrorHandler_shouldRetry error =
     (case categorize error of
        Inl e \<Rightarrow> Inl e
      | Inr category \<Rightarrow>
          if category = NETWORK \<or> category = SYSTEM then Inr True
          else if extractStatusCode error = JNum 429 then Inr True
          else Inr False)"

definition getRetryAfter :: "jsval \<Rightarrow> jsval + jsval" where
  "getRetryAfter error =
     (let statusCode = extractStatusCode error
      in if statusCode = JNum 429
         then (let retryAfter =
                     js_or (get (get (get error ''response'') ''headers'') ''retry-after'')
                           (get (get error ''headers'') ''retry-after'')
               in if truthy retryAfter then Inr (times1000 (parseInt retryAfter))
                  else Inr (JNum 1000))
         else (case categorize error of
                 Inl e \<Rightarrow> Inl e
               | Inr category \<Rightarrow>
                   if category = NETWORK \<or> category = SYSTEM then Inr (JNum 1000)
                   else Inr JUndefined))"

text \<open>
  \<open>ErrorInfo\<close>, without its \<open>context\<close> field (the caller's context and the clock's time
  stamp, which no decision reads) and its unset \<open>userMessage\<close>.
\<close>

record ErrorInfo =
  category :: ErrorCategory
  message :: jsval
  originalError :: jsval
  statusCode :: jsval
  errorCode :: jsval
  shouldRetry :: bool
  retryAfter :: jsval

definition parse :: "jsval \<Rightarrow> jsval + ErrorInfo" where
  "parse error =
     (case categorize error of
        Inl e \<Rightarrow> Inl e
      | Inr cat \<Rightarrow>
         (case ErrorHandler_shouldRetry error of
            Inl e \<Rightarrow> Inl e
          | Inr retry \<Rightarrow>
             (case getRetryAfter error of
                Inl e \<Rightarrow> Inl e
              | Inr after \<Rightarrow>
                  Inr \<lparr>category = cat,
                       message = extractMessage error,
                       originalError = error,
                       statusCode = extractStatusCode error,
                       errorCode = extractErrorCode error,
                       shouldRetry = retry,
                       retryAfter = after\<rparr>)))"

section \<open>Retry policy (RetryPolicy, RetryPolicyHelper)\<close>

text \<open>
  Delays are real numbers of milliseconds; the attempt number is an integer, and
  \<open>Math.pow(2, attempt - 1)\<close> is the power with an integer exponent.
\<close>

record RetryPolicy =
  maxAttempts :: int
  baseDelay :: real
  maxDelay :: real
  exponentialBackoff :: bool
  retryableErrors :: "ErrorCategory list option"

definition DefaultRetryPolicy :: RetryPolicy where
  "DefaultRetryPolicy =
     \<lparr>maxAttempts = 3, baseDelay = 1000, maxDelay = 10000, exponentialBackoff = True,
      retryableErrors = Some [NETWORK, SYSTEM]\<rparr>"

definition calculateDelay :: "int \<Rightarrow> RetryPolicy \<Rightarrow> real" where
  "calculateDelay attempt policy =
     (if \<not> exponentialBackoff policy then baseDelay policy
      else (let delay = baseDelay policy * power_int 2 (attempt - 1)
            in min delay (maxDelay policy)))"

definition RetryPolicyHelper_shouldRetry :: "jsval \<Rightarrow> int \<Rightarrow> RetryPolicy \<Rightarrow> jsval + bool" where
  "RetryPolicyHelper_shouldRetry error attempt policy =
     (if attempt \<ge> maxAttempts policy then Inr False
      else case parse error of
        Inl e \<Rightarrow> Inl e
      | Inr errorInfo \<Rightarrow>
          (case retryableErrors policy of
             Some cats \<Rightarrow>
               if length cats > 0 then Inr (category errorInfo \<in> set cats)
               else Inr (shouldRetry errorInfo)
           | None \<Rightarrow> Inr (shouldRetry errorInfo)))"

definition getRetryDelay :: "jsval \<Rightarrow> int \<Rightarrow> RetryPolicy \<Rightarrow> jsval + real" where
  "getRetryDelay error attempt policy =
     (case parse error of
        Inl e \<Rightarrow> Inl e
      | Inr errorInfo \<Rightarrow>
          if truthy (retryAfter errorInfo) then Inr (number_value (retryAfter errorInfo))
          else Inr (calculateDelay attempt policy))"

section \<open>HTTP client (HttpInterceptor, HttpClient)\<close>

datatype http_method = GET | POST | PUT | DELETE | PATCH

type_synonym header_map = "string \<rightharpoonup> string"

text \<open>
  An optional field is an option: \<open>None\<close> when the property is absent. A \<open>Record<string,
  string>\<close> is a map from property names to strings.
\<close>

record HttpRequestConfig =
  url :: string
  req_method :: http_method
  headers :: "header_map option"
  body :: jsval
  timeout :: "int option"
  retryPolicy :: "RetryPolicy option"

record HttpResponse =
  data :: jsval
  status :: int
  statusText :: string
  response_headers :: header_map
  config :: HttpRequestConfig

text \<open>
  A hook either returns a value or throws one (\<open>Inl\<close>); an asynchronous hook is modelled
  by the value its promise settles to.
\<close>

record IHttpInterceptor =
  onRequest :: "(HttpRequestConfig \<Rightarrow> jsval + HttpRequestConfig) option"
  onResponse :: "(HttpResponse \<Rightarrow> jsval + HttpResponse) option"
  onError :: "(jsval \<Rightarrow> jsval + jsval) option"

record HttpClientConfig =
  baseUrl :: "string option"
  client_timeout :: "int option"
  defaultHeaders :: "header_map option"
  client_retryPolicy :: "RetryPolicy option"

record HttpClient =
  client_config :: HttpClientConfig
  interceptors :: "IHttpInterceptor list"

text \<open>The constructor: the defaults, overridden by the fields the caller gives.\<close>

definition new_HttpClient :: "HttpClientConfig \<Rightarrow> HttpClient" where
  "new_HttpClient c =
     \<lparr>client_config =
        \<lparr>baseUrl = baseUrl c,
         client_timeout = (case client_timeout c of None \<Rightarrow> Some 30000 | Some t \<Rightarrow> Some t),
         defaultHeaders =
           (case defaultHeaders c of
              None \<Rightarrow> Some [''Content-Type'' \<mapsto> ''application/json'',
                             ''Accept'' \<mapsto> ''application/json'']
            | Some h \<Rightarrow> Some h),
         client_retryPolicy =
           (case client_retryPolicy c of None \<Rightarrow> Some DefaultRetryPolicy | Some p \<Rightarrow> Some p)\<rparr>,
      interceptors = []\<rparr>"

definition addInterceptor :: "HttpClient \<Rightarrow> IHttpInterceptor \<Rightarrow> HttpClient" where
  "addInterceptor client interceptor =
     client\<lparr>interceptors := interceptors client @ [interceptor]\<rparr>"

text \<open>The properties an object spread \<open>...h\<close> copies: none when \<open>h\<close> is \<open>undefined\<close>.\<close>

definition spread :: "header_map option \<Rightarrow> header_map" where
  "spread h = (case h of None \<Rightarrow> Map.empty | Some m \<Rightarrow> m)"

definition buildRequestConfig :: "HttpClient \<Rightarrow> HttpRequestConfig \<Rightarrow> HttpRequestConfig" where
  "buildRequestConfig client cfg =
     cfg\<lparr>url :=
           (if startsWith (url cfg) ''http'' then url cfg
            else (case baseUrl (client_config client) of None \<Rightarrow> [] | Some b \<Rightarrow> b) @ url cfg),
         headers :=
           Some (spread (defaultHeaders (client_config client)) ++ spread (headers cfg)),
         timeout :=
           (case timeout cfg of
              None \<Rightarrow> client_timeout (client_config client)
            | Some t \<Rightarrow> if t \<noteq> 0 then Some t else client_timeout (client_config client)),
         retryPolicy :=
           (case retryPolicy cfg of
              None \<Rightarrow> client_retryPolicy (client_config client)
            | Some p \<Rightarrow> Some p)\<rparr>"

subsection \<open>The transport\<close>

text \<open>
  \<open>fetch\<close> is the host's. Its \<open>Response\<close> is modelled by what the client reads from it:
  \<open>ok\<close>, \<open>status\<close>, \<open>statusText\<close>, the headers (names in lower case, as the Fetch API
  keeps them), what \<open>json()\<close> and \<open>text()\<close> settle to, and what \<open>JSON.parse\<close> returns on
  that text (\<open>None\<close> when it throws). The second argument of \<open>fetch\<close> is the \<open>RequestInit\<close>
  the client builds, without the abort signal: a call either resolves, rejects, or is
  aborted because the timer of \<open>config.timeout\<close> fired first, in which case \<open>fetch\<close>
  rejects with an \<open>AbortError\<close>. The transport is a function of a state of the world
  \<open>'w\<close>, which it may change.
\<close>

record Response =
  resp_ok :: bool
  resp_status :: int
  resp_statusText :: string
  resp_headers :: header_map
  resp_json :: "jsval + jsval"
  resp_text :: "jsval + string"
  resp_text_parsed :: "jsval option"

record RequestInit =
  init_method :: http_method
  init_headers :: "header_map option"
  init_body :: "string option"

datatype fetch_outcome = Resolved Response | Rejected jsval | Aborted

definition abort_error :: jsval where
  "abort_error =
     JObj [(''name'', JStr ''AbortError''), (''message'', JStr ''The operation was aborted.''),
           (''code'', JNum 20)]"

definition timeout_error :: jsval where
  "timeout_error =
     JObj [(''message'', JStr ''Request timeout''), (''code'', JStr ''TIMEOUT''),
           (''status'', JNum 408)]"

definition parseResponse :: "Response \<Rightarrow> jsval + jsval" where
  "parseResponse response =
     (let contentType = resp_headers response ''content-type'';
          fromText =
            (case resp_text response of
               Inl e \<Rightarrow> Inl e
             | Inr t \<Rightarrow> (case resp_text_parsed response of Some v \<Rightarrow> Inr v | None \<Rightarrow> Inr (JStr t)))
      in case contentType of
           None \<Rightarrow> fromText
         | Some ct \<Rightarrow>
             if ct \<noteq> [] \<and> includes_str ct ''application/json'' then resp_json response
             else fromText)"

text \<open>The \<open>fetchConfig\<close> that \<open>executeRequest\<close> builds and hands to \<open>fetch\<close>.\<close>

definition fetchConfig :: "HttpRequestConfig \<Rightarrow> RequestInit" where
  "fetchConfig cfg =
     \<lparr>init_method = req_method cfg,
      init_headers = headers cfg,
      init_body =
        (if truthy (body cfg) \<and> req_method cfg \<noteq> GET
         then (case body cfg of JStr s \<Rightarrow> Some s | b \<Rightarrow> JSON_stringify b)
         else None)\<rparr>"

text \<open>The test of the \<open>catch\<close> block: an object that has a property \<open>name\<close> equal to \<open>AbortError\<close>.\<close>

definition is_AbortError :: "jsval \<Rightarrow> bool" where
  "is_AbortError error =
     (truthy error \<and>
      (case error of
         JObj ps \<Rightarrow> map_of ps ''name'' \<noteq> None \<and> get error ''name'' = JStr ''AbortError''
       | _ \<Rightarrow> False))"

definition executeRequest ::
  "(string \<Rightarrow> RequestInit \<Rightarrow> 'w \<Rightarrow> fetch_outcome \<times> 'w) \<Rightarrow> HttpRequestConfig \<Rightarrow> 'w
     \<Rightarrow> (jsval + HttpResponse) \<times> 'w" where
  "executeRequest fetch cfg w =
     (case fetch (url cfg) (fetchConfig cfg) w of
        (outcome, w') \<Rightarrow>
          (let tried =
                 (case outcome of
                    Aborted \<Rightarrow> Inl abort_error
                  | Rejected e \<Rightarrow> Inl e
                  | Resolved response \<Rightarrow>
                      if \<not> resp_ok response
                      then (case parseResponse response of
                              Inl e \<Rightarrow> Inl e
                            | Inr parsed \<Rightarrow>
                                Inl (JObj [(''status'', JNum (resp_status response)),
                                           (''statusText'', JStr (resp_statusText response)),
                                           (''response'', parsed)]))
                      else (case parseResponse response of
                              Inl e \<Rightarrow> Inl e
                            | Inr parsed \<Rightarrow>
                                Inr \<lparr>data = parsed,
                                     status = resp_status response,
                                     statusText = resp_statusText response,
                                     response_headers = resp_headers response,
                                     config = cfg\<rparr>))
           in case tried of
                Inl error \<Rightarrow> if is_AbortError error then (Inl timeout_error, w') else (Inl error, w')
              | Inr r \<Rightarrow> (Inr r, w')))"

subsection \<open>Interceptors and the retry loop\<close>

fun applyRequestInterceptors ::
  "IHttpInterceptor list \<Rightarrow> HttpRequestConfig \<Rightarrow> jsval + HttpRequestConfig" where
  "applyRequestInterceptors [] interceptedConfig = Inr interceptedConfig"
| "applyRequestInterceptors (interceptor # rest) interceptedConfig =
     (case onRequest interceptor of
        None \<Rightarrow> applyRequestInterceptors rest interceptedConfig
      | Some hook \<Rightarrow>
          (case hook interceptedConfig of
             Inl e \<Rightarrow> Inl e
           | Inr c \<Rightarrow> applyRequestInterceptors rest c))"

fun applyResponseInterceptors ::
  "IHttpInterceptor list \<Rightarrow> HttpResponse \<Rightarrow> jsval + HttpResponse" where
  "applyResponseInterceptors [] interceptedResponse = Inr interceptedResponse"
| "applyResponseInterceptors (interceptor # rest) interceptedResponse =
     (case onResponse interceptor of
        None \<Rightarrow> applyResponseInterceptors rest interceptedResponse
      | Some hook \<Rightarrow>
          (case hook interceptedResponse of
             Inl e \<Rightarrow> Inl e
           | Inr r \<Rightarrow> applyResponseInterceptors rest r))"

text \<open>
  What a call of \<open>request\<close> does to the outside, in order: each call of the executor with
  the configuration it got and what it settled to, each warning the logger receives
  (attempt, \<open>maxAttempts\<close>, URL, delay), and each wait between attempts.
\<close>

datatype event =
    Executed HttpRequestConfig "jsval + HttpResponse"
  | Warned int int string real
  | Waited real

text \<open>The \<open>try\<close> block of one attempt: \<open>Inr\<close> the payload returned, \<open>Inl\<close> the value caught.\<close>

definition try_attempt ::
  "HttpClient \<Rightarrow> (string \<Rightarrow> RequestInit \<Rightarrow> 'w \<Rightarrow> fetch_outcome \<times> 'w) \<Rightarrow> HttpRequestConfig
     \<Rightarrow> 'w \<times> event list \<Rightarrow> (jsval + jsval) \<times> ('w \<times> event list)" where
  "try_attempt client fetch fullConfig s =
     (case applyRequestInterceptors (interceptors client) fullConfig of
        Inl e \<Rightarrow> (Inl e, s)
      | Inr interceptedConfig \<Rightarrow>
          (case executeRequest fetch interceptedConfig (fst s) of
             (Inl e, w') \<Rightarrow> (Inl e, (w', snd s @ [Executed interceptedConfig (Inl e)]))
           | (Inr response, w') \<Rightarrow>
               (case applyResponseInterceptors (interceptors client) response of
                  Inl e \<Rightarrow> (Inl e, (w', snd s @ [Executed interceptedConfig (Inr response)]))
                | Inr interceptedResponse \<Rightarrow>
                    (Inr (data interceptedResponse),
                     (w', snd s @ [Executed interceptedConfig (Inr response)])))))"

text \<open>
  The \<open>for\<close> loop of \<open>request\<close> from a given attempt on, and the statements after it. An
  exception thrown inside the \<open>catch\<close> block (by the classifier) leaves \<open>request\<close>.
\<close>

function request_loop ::
  "HttpClient \<Rightarrow> (string \<Rightarrow> RequestInit \<Rightarrow> 'w \<Rightarrow> fetch_outcome \<times> 'w) \<Rightarrow> RetryPolicy
     \<Rightarrow> HttpRequestConfig \<Rightarrow> int \<Rightarrow> jsval \<Rightarrow> 'w \<times> event list
     \<Rightarrow> (jsval + jsval) \<times> ('w \<times> event list)" where
  "request_loop client fetch policy fullConfig attempt lastError s =
     (if attempt \<le> maxAttempts policy
      then (case try_attempt client fetch fullConfig s of
              (Inr payload, s') \<Rightarrow> (Inr payload, s')
            | (Inl error, s') \<Rightarrow>
                (case RetryPolicyHelper_shouldRetry error attempt policy of
                   Inl e \<Rightarrow> (Inl e, s')
                 | Inr False \<Rightarrow> (Inl error, s')
                 | Inr True \<Rightarrow>
                     (case getRetryDelay error attempt policy of
                        Inl e \<Rightarrow> (Inl e, s')
                      | Inr delay \<Rightarrow>
                          request_loop client fetch policy fullConfig (attempt + 1) error
                            (fst s',
                             snd s' @ [Warned attempt (maxAttempts policy) (url fullConfig) delay,
                                       Waited delay]))))
      else (case parse lastError of
              Inl e \<Rightarrow> (Inl e, s)
            | Inr errorInfo \<Rightarrow> (Inl lastError, s)))"
  by pat_completeness auto
termination
  by (relation "measure (\<lambda>(client, fetch, policy, fullConfig, attempt, lastError, s).
                  nat (maxAttempts policy + 1 - attempt))") auto

definition request ::
  "HttpClient \<Rightarrow> (string \<Rightarrow> RequestInit \<Rightarrow> 'w \<Rightarrow> fetch_outcome \<times> 'w) \<Rightarrow> HttpRequestConfig \<Rightarrow> 'w
     \<Rightarrow> (jsval + jsval) \<times> ('w \<times> event list)" where
  "request client fetch requestConfig w =
     (let fullConfig = buildRequestConfig client requestConfig;
          policy =
            (case retryPolicy fullConfig of
               Some p \<Rightarrow> p
             | None \<Rightarrow>
                 (case client_retryPolicy (client_config client) of
                    Some p \<Rightarrow> p
                  | None \<Rightarrow> DefaultRetryPolicy))
      in request_loop client fetch policy fullConfig 1 JUndefined (w, []))"

text \<open>\<open>get(url)\<close>, called without a configuration argument.\<close>

definition http_get ::
  "HttpClient \<Rightarrow> (string \<Rightarrow> RequestInit \<Rightarrow> 'w \<Rightarrow> fetch_outcome \<times> 'w) \<Rightarrow> string \<Rightarrow> 'w
     \<Rightarrow> (jsval + jsval) \<times> ('w \<times> event list)" where
  "http_get client fetch u w =
     request client fetch
       \<lparr>url = u, req_method = GET, headers = None, body = JUndefined, timeout = None,
        retryPolicy = None\<rparr> w"

text \<open>The executor calls and the waits of a trace.\<close>

fun executions :: "event list \<Rightarrow> (HttpRequestConfig \<times> (jsval + HttpResponse)) list" where
  "executions [] = []"
| "executions (Executed c r # es) = (c, r) # executions es"
| "executions (_ # es) = executions es"

fun waits :: "event list \<Rightarrow> real list" where
  "waits [] = []"
| "waits (Waited d # es) = d # waits es"
| "waits (_ # es) = waits es"

section \<open>Properties\<close>

declare request_loop.simps [simp del]
declare show_nat.simps [simp del]

subsection \<open>The classifier's result\<close>

lemma getRetryAfter_of_categorize:
  "categorize e = Inr cat \<Longrightarrow> \<exists>v. getRetryAfter e = Inr v"
  by (simp add: getRetryAfter_def Let_def)

lemma parse_of_categorize:
  assumes "categorize e = Inr cat"
  shows "\<exists>info. parse e = Inr info \<and> category info = cat \<and>
           shouldRetry info = (cat = NETWORK \<or> cat = SYSTEM \<or> extractStatusCode e = JNum 429) \<and>
           statusCode info = extractStatusCode e \<and> errorCode info = extractErrorCode e"
proof -
  obtain v where v: "getRetryAfter e = Inr v"
    using getRetryAfter_of_categorize [OF assms] by blast
  show ?thesis
    using assms v by (simp add: parse_def ErrorHandler_shouldRetry_def)
qed

lemma parse_category:
  "parse e = Inr info \<Longrightarrow> categorize e = Inr (category info)"
  by (auto simp: parse_def split: sum.splits)

lemma parse_shouldRetry:
  "parse e = Inr info \<Longrightarrow> ErrorHandler_shouldRetry e = Inr (shouldRetry info)"
  by (auto simp: parse_def split: sum.splits)

lemma parse_retryAfter:
  "parse e = Inr info \<Longrightarrow> getRetryAfter e = Inr (retryAfter info)"
  by (auto simp: parse_def split: sum.splits)

lemma parseInt_two: "parseInt (JStr ''2'') = JNum 2 \<and> parseInt (JNum 2) = JNum 2"
  by code_simp

subsection \<open>Backoff delays\<close>

text \<open>
  C7. When the classification of the error carries no usable \<open>retryAfter\<close> (it is absent or
  falsy), \<open>getRetryDelay\<close> returns \<open>min(baseDelay * 2^(attempt - 1), maxDelay)\<close> when
  \<open>exponentialBackoff\<close> is set and \<open>baseDelay\<close> otherwise. With \<open>exponentialBackoff\<close>,
  \<open>baseDelay = 1000\<close> and \<open>maxDelay = 10000\<close> the delays of attempts 1 to 5 are 1000, 2000,
  4000, 8000 and 10000 milliseconds.
\<close>

theorem backoff_delay_formula:
  assumes "parse error = Inr errorInfo" and "\<not> truthy (retryAfter errorInfo)"
  shows "getRetryDelay error attempt policy =
           Inr (if exponentialBackoff policy
                then min (baseDelay policy * power_int 2 (attempt - 1)) (maxDelay policy)
                else baseDelay policy) \<and>
         getRetryDelay error attempt policy = Inr (calculateDelay attempt policy) \<and>
         map (\<lambda>a. calculateDelay a
                (policy\<lparr>exponentialBackoff := True, baseDelay := 1000, maxDelay := 10000\<rparr>))
             [1, 2, 3, 4, 5] = [1000, 2000, 4000, 8000, 10000]"
  using assms by (simp add: getRetryDelay_def calculateDelay_def Let_def)

theorem backoff_delay_formula_witness:
  "getRetryDelay (JObj [(''status'', JNum 404)]) 3
     \<lparr>maxAttempts = 6, baseDelay = 1000, maxDelay = 10000, exponentialBackoff = True,
      retryableErrors = Some [BUSINESS]\<rparr> = Inr 4000"
proof -
  have c: "categorize (JObj [(''status'', JNum 404)]) = Inr BUSINESS"
    by code_simp
  have r: "getRetryAfter (JObj [(''status'', JNum 404)]) = Inr JUndefined"
    by code_simp
  obtain info where p: "parse (JObj [(''status'', JNum 404)]) = Inr info"
    using parse_of_categorize [OF c] by blast
  have f: "\<not> truthy (retryAfter info)"
    using parse_retryAfter [OF p] r by simp
  show ?thesis
    using backoff_delay_formula [OF p f, of 3
        "\<lparr>maxAttempts = 6, baseDelay = 1000, maxDelay = 10000, exponentialBackoff = True,
          retryableErrors = Some [BUSINESS]\<rparr>"]
    by simp
qed

text \<open>
  C8. For a classified error whose status is 429 and whose \<open>retry-after\<close> header (read from
  \<open>error.response.headers\<close>, else from \<open>error.headers\<close>) is 2, as the string or as the
  number, the retry delay is 2000 milliseconds at every attempt and under every policy:
  neither \<open>baseDelay\<close> nor the cap \<open>maxDelay\<close> enters.
\<close>

theorem retry_after_header_delay:
  assumes "parse error = Inr errorInfo"
      and "extractStatusCode error = JNum 429"
      and "js_or (get (get (get error ''response'') ''headers'') ''retry-after'')
                 (get (get error ''headers'') ''retry-after'') = h"
      and "h = JStr ''2'' \<or> h = JNum 2"
  shows "getRetryDelay error attempt policy = Inr 2000"
proof -
  have "parseInt h = JNum 2"
    using assms(4) parseInt_two by auto
  moreover have "truthy h"
    using assms(4) by auto
  ultimately have "getRetryAfter error = Inr (JNum 2000)"
    using assms(2,3) by (simp add: getRetryAfter_def Let_def)
  then have "retryAfter errorInfo = JNum 2000"
    using parse_retryAfter [OF assms(1)] by simp
  then show ?thesis
    using assms(1) by (simp add: getRetryDelay_def)
qed

theorem retry_after_header_delay_witness:
  "getRetryDelay
     (JObj [(''status'', JNum 429), (''headers'', JObj [(''retry-after'', JStr ''2'')])]) 7
     \<lparr>maxAttempts = 9, baseDelay = 100, maxDelay = 500, exponentialBackoff = True,
      retryableErrors = None\<rparr> = Inr 2000"
proof -
  let ?e = "JObj [(''status'', JNum 429), (''headers'', JObj [(''retry-after'', JStr ''2'')])]"
  have c: "categorize ?e = Inr BUSINESS"
    by code_simp
  obtain info where p: "parse ?e = Inr info"
    using parse_of_categorize [OF c] by blast
  have s: "extractStatusCode ?e = JNum 429"
    by (simp add: extractStatusCode_def js_or_def)
  have h: "js_or (get (get (get ?e ''response'') ''headers'') ''retry-after'')
                 (get (get ?e ''headers'') ''retry-after'') = JStr ''2''"
    by (simp add: js_or_def)
  show ?thesis
    using retry_after_header_delay [OF p s h] by simp
qed

subsection \<open>Request configuration and the executor\<close>

text \<open>
  C10. For a request whose method is \<open>GET\<close> the \<open>RequestInit\<close> handed to \<open>fetch\<close> has no
  body, whatever the body of the configuration: the URL and the \<open>RequestInit\<close> are those of
  the same request without a body, so the transport is called with the same arguments, is
  left in the same state, and the executor settles to the same error or the same payload.
\<close>

theorem get_request_sends_no_body:
  assumes "req_method cfg = GET"
  shows "init_body (fetchConfig cfg) = None \<and>
         fetchConfig cfg = fetchConfig (cfg\<lparr>body := JUndefined\<rparr>) \<and>
         url cfg = url (cfg\<lparr>body := JUndefined\<rparr>) \<and>
         snd (executeRequest fetch cfg w) = snd (executeRequest fetch (cfg\<lparr>body := JUndefined\<rparr>) w) \<and>
         map_sum id data (fst (executeRequest fetch cfg w)) =
           map_sum id data (fst (executeRequest fetch (cfg\<lparr>body := JUndefined\<rparr>) w))"
proof -
  have f: "fetchConfig cfg = fetchConfig (cfg\<lparr>body := JUndefined\<rparr>)"
    using assms by (simp add: fetchConfig_def)
  have b: "init_body (fetchConfig cfg) = None"
    using assms by (simp add: fetchConfig_def)
  have e: "snd (executeRequest fetch cfg w) = snd (executeRequest fetch (cfg\<lparr>body := JUndefined\<rparr>) w) \<and>
           map_sum id data (fst (executeRequest fetch cfg w)) =
             map_sum id data (fst (executeRequest fetch (cfg\<lparr>body := JUndefined\<rparr>) w))"
    unfolding executeRequest_def f [symmetric]
    by (auto simp: Let_def split: prod.splits fetch_outcome.splits sum.splits)
  show ?thesis
    using f b e by simp
qed

theorem get_request_sends_no_body_witness:
  "init_body (fetchConfig
     \<lparr>url = ''https://api.example.com/data'', req_method = GET, headers = None,
      body = JObj [(''name'', JStr ''value'')], timeout = Some 50, retryPolicy = None\<rparr>) = None"
proof -
  have g: "req_method
     \<lparr>url = ''https://api.example.com/data'', req_method = GET, headers = None,
      body = JObj [(''name'', JStr ''value'')], timeout = Some 50, retryPolicy = None\<rparr> = GET"
    by simp
  show ?thesis
    using get_request_sends_no_body [OF g, where fetch = "\<lambda>u i (w::unit). (Aborted, w)" and w = "()"]
    by blast
qed

text \<open>
  C9, as the code has it. The headers of the effective configuration are the client's
  default headers overridden by the caller's, key by key: a key the caller gives has the
  caller's value, any other key keeps its default. Keys are compared exactly, letter case
  included.
\<close>

theorem headers_merge_by_exact_key:
  "map_option (\<lambda>merged. merged k) (headers (buildRequestConfig client cfg)) =
     Some (case spread (headers cfg) k of
             Some v \<Rightarrow> Some v
           | None \<Rightarrow> spread (defaultHeaders (client_config client)) k)"
  by (simp add: buildRequestConfig_def map_add_def)

text \<open>
  C9 as stated fails: a caller's \<open>content-type\<close> does not replace the default
  \<open>Content-Type\<close>; the merged headers hold both entries.
\<close>

theorem headers_merge_case_counterexample:
  "map_option (\<lambda>merged. (merged ''Content-Type'', merged ''content-type''))
     (headers (buildRequestConfig
        (new_HttpClient
           \<lparr>baseUrl = None, client_timeout = None,
            defaultHeaders = Some [''Content-Type'' \<mapsto> ''application/json''],
            client_retryPolicy = None\<rparr>)
        \<lparr>url = ''/data'', req_method = POST,
         headers = Some [''content-type'' \<mapsto> ''text/plain''],
         body = JStr ''hello'', timeout = None, retryPolicy = None\<rparr>)) =
   Some (Some ''application/json'', Some ''text/plain'')"
  by (simp add: buildRequestConfig_def new_HttpClient_def spread_def map_add_def)

subsection \<open>The classifier on ill-typed properties\<close>

text \<open>
  C5. \<open>parse\<close> throws a \<open>TypeError\<close> on an object whose \<open>code\<close> or \<open>message\<close> is a number
  other than zero, and on one whose \<open>error.code\<close> is such a number.
\<close>

theorem parse_throws_on_non_string_property:
  "parse (JObj [(''code'', JNum 500), (''message'', JStr ''Internal error'')]) =
     Inl (type_error ''toLowerCase is not a function'') \<and>
   parse (JObj [(''message'', JNum 42)]) =
     Inl (type_error ''toLowerCase is not a function'') \<and>
   parse (JObj [(''status'', JNum 404), (''error'', JObj [(''code'', JNum 404)])]) =
     Inl (type_error ''includes is not a function'')"
  by code_simp

subsection \<open>Retry decisions\<close>


lemma whitelist_retry_decision:
  assumes "retryableErrors policy = Some cats" and "cats \<noteq> []"
  shows "RetryPolicyHelper_shouldRetry e attempt policy = Inr True \<longleftrightarrow>
           attempt < maxAttempts policy \<and> (\<exists>cat. categorize e = Inr cat \<and> cat \<in> set cats)"
  using assms
  by (auto simp: RetryPolicyHelper_shouldRetry_def dest: parse_category parse_of_categorize
           split: sum.splits)

text \<open>
  C4, as the code has it. Under a policy whose \<open>retryableErrors\<close> is non-empty the retry
  decision is true exactly when attempts remain and the category of the error is in the
  list; the classifier's own recommendation is not consulted. The decision implies that
  recommendation when the list holds no category other than \<open>NETWORK\<close> and \<open>SYSTEM\<close>. In
  particular, under \<open>[NETWORK]\<close> an error of category \<open>BUSINESS\<close> is not retried at any
  attempt.
\<close>

theorem whitelist_decides_retry:
  assumes "retryableErrors policy = Some cats" and "cats \<noteq> []"
  shows "(RetryPolicyHelper_shouldRetry e attempt policy = Inr True \<longleftrightarrow>
            attempt < maxAttempts policy \<and> (\<exists>cat. categorize e = Inr cat \<and> cat \<in> set cats)) \<and>
         (set cats \<subseteq> {NETWORK, SYSTEM} \<longrightarrow>
            RetryPolicyHelper_shouldRetry e attempt policy = Inr True \<longrightarrow>
            ErrorHandler_shouldRetry e = Inr True) \<and>
         (cats = [NETWORK] \<longrightarrow> categorize e = Inr BUSINESS \<longrightarrow>
            RetryPolicyHelper_shouldRetry e attempt policy = Inr False)"
proof (intro conjI impI)
  show "RetryPolicyHelper_shouldRetry e attempt policy = Inr True \<longleftrightarrow>
          attempt < maxAttempts policy \<and> (\<exists>cat. categorize e = Inr cat \<and> cat \<in> set cats)"
    by (rule whitelist_retry_decision [OF assms])
next
  assume sub: "set cats \<subseteq> {NETWORK, SYSTEM}"
     and "RetryPolicyHelper_shouldRetry e attempt policy = Inr True"
  then obtain cat where "categorize e = Inr cat" "cat \<in> set cats"
    using whitelist_retry_decision [OF assms] by blast
  then show "ErrorHandler_shouldRetry e = Inr True"
    using sub by (auto simp: ErrorHandler_shouldRetry_def)
next
  assume c: "cats = [NETWORK]" and b: "categorize e = Inr BUSINESS"
  obtain info where "parse e = Inr info" "category info = BUSINESS"
    using parse_of_categorize [OF b] by auto
  then show "RetryPolicyHelper_shouldRetry e attempt policy = Inr False"
    using assms c by (simp add: RetryPolicyHelper_shouldRetry_def)
qed

theorem whitelist_decides_retry_witness:
  "RetryPolicyHelper_shouldRetry (JObj [(''status'', JNum 404)]) 1
     \<lparr>maxAttempts = 3, baseDelay = 1000, maxDelay = 10000, exponentialBackoff = True,
      retryableErrors = Some [NETWORK]\<rparr> = Inr False \<and>
   ErrorHandler_shouldRetry (JObj [(''message'', JStr ''Network error'')]) = Inr True"
proof -
  let ?p = "\<lparr>maxAttempts = 3, baseDelay = 1000, maxDelay = 10000, exponentialBackoff = True,
             retryableErrors = Some [NETWORK]\<rparr>"
  have r: "retryableErrors ?p = Some [NETWORK]" and n: "[NETWORK] \<noteq> []"
    by simp_all
  have b: "categorize (JObj [(''status'', JNum 404)]) = Inr BUSINESS"
    by code_simp
  have d: "RetryPolicyHelper_shouldRetry (JObj [(''message'', JStr ''Network error'')]) 1 ?p = Inr True"
    by code_simp
  show ?thesis
    using whitelist_decides_retry [OF r n, of "JObj [(''status'', JNum 404)]" 1]
          whitelist_decides_retry [OF r n, of "JObj [(''message'', JStr ''Network error'')]" 1]
          b d
    by simp
qed

text \<open>
  C4 as stated fails: under the list \<open>[BUSINESS]\<close> a 404 is retried although the classifier
  does not recommend a retry.
\<close>

theorem whitelist_widens_counterexample:
  "retryableErrors
     \<lparr>maxAttempts = 3, baseDelay = 1000, maxDelay = 10000, exponentialBackoff = True,
      retryableErrors = Some [BUSINESS]\<rparr> = Some [BUSINESS] \<and>
   RetryPolicyHelper_shouldRetry (JObj [(''status'', JNum 404)]) 1
     \<lparr>maxAttempts = 3, baseDelay = 1000, maxDelay = 10000, exponentialBackoff = True,
      retryableErrors = Some [BUSINESS]\<rparr> = Inr True \<and>
   ErrorHandler_shouldRetry (JObj [(''status'', JNum 404)]) = Inr False"
  by code_simp

subsection \<open>Timeouts\<close>




subsection \<open>The retry loop\<close>

lemma executions_append: "executions (xs @ ys) = executions xs @ executions ys"
  by (induction xs rule: executions.induct) simp_all

lemma waits_append: "waits (xs @ ys) = waits xs @ waits ys"
  by (induction xs rule: waits.induct) simp_all

text \<open>
  The retry decision while attempts remain, in terms of the classification: under a
  non-empty \<open>retryableErrors\<close> list the category must be in the list; without one the
  classifier's recommendation decides (category \<open>NETWORK\<close> or \<open>SYSTEM\<close>, or status 429).
\<close>

lemma policy_retries_iff:
  assumes "a < maxAttempts policy"
  shows "RetryPolicyHelper_shouldRetry e a policy = Inr True \<longleftrightarrow>
           (\<exists>cat. categorize e = Inr cat \<and>
              (case retryableErrors policy of
                 Some (x # xs) \<Rightarrow> cat \<in> set (x # xs)
               | _ \<Rightarrow> cat = NETWORK \<or> cat = SYSTEM \<or> extractStatusCode e = JNum 429))"
proof (cases "categorize e")
  case (Inl t)
  then have "parse e = Inl t"
    by (simp add: parse_def)
  then show ?thesis
    using assms Inl by (simp add: RetryPolicyHelper_shouldRetry_def)
next
  case (Inr cat)
  obtain info where "parse e = Inr info" "category info = cat"
    "shouldRetry info = (cat = NETWORK \<or> cat = SYSTEM \<or> extractStatusCode e = JNum 429)"
    using parse_of_categorize [OF Inr] by auto
  then show ?thesis
    using assms Inr
    by (auto simp: RetryPolicyHelper_shouldRetry_def split: option.splits list.splits)
qed

lemma getRetryDelay_defined:
  assumes "categorize e = Inr cat"
  shows "\<exists>d. getRetryDelay e a policy = Inr d"
proof -
  obtain info where "parse e = Inr info"
    using parse_of_categorize [OF assms] by auto
  then show ?thesis
    by (simp add: getRetryDelay_def)
qed

lemma request_loop_exhausts:
  fixes fetch :: "string \<Rightarrow> RequestInit \<Rightarrow> 'w \<Rightarrow> fetch_outcome \<times> 'w"
  assumes hooks: "\<And>c. \<exists>c'. applyRequestInterceptors (interceptors client) c = Inr c'"
      and fails: "\<And>c w. \<exists>e w' cat. executeRequest fetch c w = (Inl e, w') \<and>
                   categorize e = Inr cat \<and>
                   (case retryableErrors policy of
                      Some (x # xs) \<Rightarrow> cat \<in> set (x # xs)
                    | _ \<Rightarrow> cat = NETWORK \<or> cat = SYSTEM \<or> extractStatusCode e = JNum 429)"
  shows "k = nat (maxAttempts policy - a) \<Longrightarrow> a \<le> maxAttempts policy \<Longrightarrow>
         \<exists>e c w' tr'. request_loop client fetch policy cfg a le (w, tr) = (Inl e, (w', tr')) \<and>
            last (executions tr') = (c, Inl e) \<and>
            length (executions tr') = length (executions tr) + k + 1 \<and>
            length (waits tr') = length (waits tr) + k"
proof (induction k arbitrary: a le w tr)
  case 0
  obtain c' where c': "applyRequestInterceptors (interceptors client) cfg = Inr c'"
    using hooks by blast
  obtain e w' where ex: "executeRequest fetch c' w = (Inl e, w')"
    using fails by blast
  have t: "try_attempt client fetch cfg (w, tr) = (Inl e, (w', tr @ [Executed c' (Inl e)]))"
    by (simp add: try_attempt_def c' ex)
  have s: "RetryPolicyHelper_shouldRetry e a policy = Inr False"
    using "0.prems" by (simp add: RetryPolicyHelper_shouldRetry_def)
  have "request_loop client fetch policy cfg a le (w, tr) =
          (Inl e, (w', tr @ [Executed c' (Inl e)]))"
    by (subst request_loop.simps) (simp add: t s "0.prems"(2))
  then show ?case
    using "0.prems"(1) by (simp add: executions_append waits_append)
next
  case (Suc k)
  then have a: "a < maxAttempts policy" and k: "k = nat (maxAttempts policy - (a + 1))"
    and a1: "a + 1 \<le> maxAttempts policy"
    by auto
  obtain c' where c': "applyRequestInterceptors (interceptors client) cfg = Inr c'"
    using hooks by blast
  obtain e w' cat where ex: "executeRequest fetch c' w = (Inl e, w')"
    and cat: "categorize e = Inr cat"
      "case retryableErrors policy of
         Some (x # xs) \<Rightarrow> cat \<in> set (x # xs)
       | _ \<Rightarrow> cat = NETWORK \<or> cat = SYSTEM \<or> extractStatusCode e = JNum 429"
    using fails by blast
  have t: "try_attempt client fetch cfg (w, tr) = (Inl e, (w', tr @ [Executed c' (Inl e)]))"
    by (simp add: try_attempt_def c' ex)
  have s: "RetryPolicyHelper_shouldRetry e a policy = Inr True"
    using policy_retries_iff [OF a, of e] cat by blast
  obtain d where d: "getRetryDelay e a policy = Inr d"
    using getRetryDelay_defined [OF cat(1)] by blast
  let ?tr = "(tr @ [Executed c' (Inl e)]) @ [Warned a (maxAttempts policy) (url cfg) d, Waited d]"
  have step: "request_loop client fetch policy cfg a le (w, tr) =
              request_loop client fetch policy cfg (a + 1) e (w', ?tr)"
    using a by (subst request_loop.simps) (simp add: t s d)
  from Suc.IH [OF k a1, of e w' ?tr]
  obtain e2 c2 w2 tr2 where
    r: "request_loop client fetch policy cfg (a + 1) e (w', ?tr) = (Inl e2, (w2, tr2))"
       "last (executions tr2) = (c2, Inl e2)"
       "length (executions tr2) = length (executions ?tr) + k + 1"
       "length (waits tr2) = length (waits ?tr) + k"
    by blast
  show ?case
    using r by (simp add: step executions_append waits_append)
qed

text \<open>
  C3, as the code has it. Let the retry policy in force have \<open>maxAttempts = N\<close> with
  \<open>N \<ge> 1\<close>, let no request hook throw, and let the executor fail at every call with an
  error that the policy retries: an error the classifier categorizes, whose category is in
  the policy's \<open>retryableErrors\<close> list when that list is non-empty, and which the classifier
  recommends to retry (category \<open>NETWORK\<close> or \<open>SYSTEM\<close>, or status 429) when the policy has no
  such list. Then \<open>request\<close> calls the executor exactly \<open>N\<close> times, waits \<open>N - 1\<close> times, and
  rejects with the very error of the last call.
\<close>

theorem request_exhausts_attempts:
  fixes fetch :: "string \<Rightarrow> RequestInit \<Rightarrow> 'w \<Rightarrow> fetch_outcome \<times> 'w"
  assumes "policy =
             (case retryPolicy (buildRequestConfig client requestConfig) of
                Some p \<Rightarrow> p
              | None \<Rightarrow>
                  (case client_retryPolicy (client_config client) of
                     Some p \<Rightarrow> p
                   | None \<Rightarrow> DefaultRetryPolicy))"
      and "maxAttempts policy = int N" and "1 \<le> N"
      and "\<forall>c. \<exists>c'. applyRequestInterceptors (interceptors client) c = Inr c'"
      and "\<forall>c w. \<exists>e w' cat. executeRequest fetch c w = (Inl e, w') \<and>
             categorize e = Inr cat \<and>
             (case retryableErrors policy of
                Some (x # xs) \<Rightarrow> cat \<in> set (x # xs)
              | _ \<Rightarrow> cat = NETWORK \<or> cat = SYSTEM \<or> extractStatusCode e = JNum 429)"
  shows "\<exists>e c w' tr. request client fetch requestConfig w = (Inl e, (w', tr)) \<and>
           length (executions tr) = N \<and>
           last (executions tr) = (c, Inl e) \<and>
           length (waits tr) = N - 1"
proof -
  have hooks: "\<And>c. \<exists>c'. applyRequestInterceptors (interceptors client) c = Inr c'"
    using assms(4) by blast
  have fails: "\<And>c w. \<exists>e w' cat. executeRequest fetch c w = (Inl e, w') \<and>
                 categorize e = Inr cat \<and>
                 (case retryableErrors policy of
                    Some (x # xs) \<Rightarrow> cat \<in> set (x # xs)
                  | _ \<Rightarrow> cat = NETWORK \<or> cat = SYSTEM \<or> extractStatusCode e = JNum 429)"
    using assms(5) by blast
  have k: "N - 1 = nat (maxAttempts policy - 1)" and a: "1 \<le> maxAttempts policy"
    using assms(2,3) by auto
  have r: "request client fetch requestConfig w =
             request_loop client fetch policy (buildRequestConfig client requestConfig) 1
               JUndefined (w, [])"
    by (simp add: request_def Let_def assms(1))
  show ?thesis
    using request_loop_exhausts [OF hooks fails k a,
            of "buildRequestConfig client requestConfig" JUndefined w "[]"] assms(3)
    by (auto simp: r)
qed

text \<open>
  The witness: a policy without a list, a request hook that adds a header, and a transport
  that answers every call with status 429. The executor is called three times.
\<close>

theorem request_exhausts_attempts_witness:
  "\<exists>e c w' tr.
     request
       (addInterceptor
          (new_HttpClient
             \<lparr>baseUrl = Some ''https://api.example.com'', client_timeout = None,
              defaultHeaders = None,
              client_retryPolicy =
                Some \<lparr>maxAttempts = 3, baseDelay = 100, maxDelay = 10000,
                      exponentialBackoff = True, retryableErrors = None\<rparr>\<rparr>)
          \<lparr>onRequest = Some (\<lambda>c. Inr (c\<lparr>headers := Some (spread (headers c) ++ [''X-Test'' \<mapsto> ''1''])\<rparr>)),
           onResponse = None, onError = None\<rparr>)
       (\<lambda>u i (w::nat).
          (Resolved \<lparr>resp_ok = False, resp_status = 429,
                     resp_statusText = ''Too Many Requests'', resp_headers = Map.empty,
                     resp_json = Inr JNull, resp_text = Inr ''slow down'',
                     resp_text_parsed = None\<rparr>, Suc w))
       \<lparr>url = ''/data'', req_method = GET, headers = None, body = JUndefined, timeout = None,
        retryPolicy = None\<rparr> 0 = (Inl e, (w', tr)) \<and>
     length (executions tr) = 3 \<and>
     last (executions tr) = (c, Inl e) \<and>
     length (waits tr) = 3 - 1"
proof -
  let ?policy = "\<lparr>maxAttempts = 3, baseDelay = 100, maxDelay = 10000,
                  exponentialBackoff = True, retryableErrors = None\<rparr>"
  let ?client = "addInterceptor
          (new_HttpClient
             \<lparr>baseUrl = Some ''https://api.example.com'', client_timeout = None,
              defaultHeaders = None, client_retryPolicy = Some ?policy\<rparr>)
          \<lparr>onRequest = Some (\<lambda>c. Inr (c\<lparr>headers := Some (spread (headers c) ++ [''X-Test'' \<mapsto> ''1''])\<rparr>)),
           onResponse = None, onError = None\<rparr>"
  let ?err = "JObj [(''status'', JNum 429), (''statusText'', JStr ''Too Many Requests''),
                    (''response'', JStr ''slow down'')]"
  let ?fetch = "\<lambda>(u::string) (i::RequestInit) (w::nat).
          (Resolved \<lparr>resp_ok = False, resp_status = 429,
                     resp_statusText = ''Too Many Requests'', resp_headers = Map.empty,
                     resp_json = Inr JNull, resp_text = Inr ''slow down'',
                     resp_text_parsed = None\<rparr>, Suc w)"
  let ?rc = "\<lparr>url = ''/data'', req_method = GET, headers = None, body = JUndefined,
              timeout = None, retryPolicy = None\<rparr>"
  have p: "?policy =
             (case retryPolicy (buildRequestConfig ?client ?rc) of
                Some p \<Rightarrow> p
              | None \<Rightarrow>
                  (case client_retryPolicy (client_config ?client) of
                     Some p \<Rightarrow> p
                   | None \<Rightarrow> DefaultRetryPolicy))"
    by (simp add: buildRequestConfig_def addInterceptor_def new_HttpClient_def)
  have m: "maxAttempts ?policy = int 3" and n: "1 \<le> (3::nat)"
    by simp_all
  have h: "\<forall>c. \<exists>c'. applyRequestInterceptors (interceptors ?client) c = Inr c'"
    by (simp add: addInterceptor_def new_HttpClient_def)
  have cat: "categorize ?err = Inr BUSINESS"
    by code_simp
  have st: "extractStatusCode ?err = JNum 429"
    by (simp add: extractStatusCode_def js_or_def)
  have ab: "\<not> is_AbortError ?err"
    by (simp add: is_AbortError_def)
  have ex: "\<And>c w. executeRequest ?fetch c w = (Inl ?err, Suc w)"
    using ab by (simp add: executeRequest_def parseResponse_def)
  have f: "\<forall>c w. \<exists>e w' cat. executeRequest ?fetch c w = (Inl e, w') \<and>
             categorize e = Inr cat \<and>
             (case retryableErrors ?policy of
                Some (x # xs) \<Rightarrow> cat \<in> set (x # xs)
              | _ \<Rightarrow> cat = NETWORK \<or> cat = SYSTEM \<or> extractStatusCode e = JNum 429)"
    using ex cat st by simp
  show ?thesis
    using request_exhausts_attempts [OF p m n h f, of 0] .
qed

text \<open>
  C3 as stated fails: not every policy retries every transient failure. Under the default
  policy, whose list is \<open>[NETWORK, SYSTEM]\<close>, a transport that answers every call with
  status 429 (category \<open>BUSINESS\<close>, which the classifier recommends to retry) is called once,
  not three times; under the list \<open>[NETWORK]\<close> the same holds for a persistent 503 (category
  \<open>SYSTEM\<close>).
\<close>

theorem request_unlisted_transient_counterexample:
  "maxAttempts DefaultRetryPolicy = 3 \<and>
   ErrorHandler_shouldRetry
     (JObj [(''status'', JNum 429), (''statusText'', JStr ''Too Many Requests''),
            (''response'', JStr ''slow down'')]) = Inr True \<and>
   fst (request
     (new_HttpClient
        \<lparr>baseUrl = Some ''https://api.example.com'', client_timeout = None,
         defaultHeaders = None, client_retryPolicy = None\<rparr>)
     (\<lambda>u i (w::nat).
        (Resolved \<lparr>resp_ok = False, resp_status = 429,
                   resp_statusText = ''Too Many Requests'', resp_headers = Map.empty,
                   resp_json = Inr JNull, resp_text = Inr ''slow down'',
                   resp_text_parsed = None\<rparr>, Suc w))
     \<lparr>url = ''/data'', req_method = GET, headers = None, body = JUndefined, timeout = None,
      retryPolicy = None\<rparr> 0) =
     Inl (JObj [(''status'', JNum 429), (''statusText'', JStr ''Too Many Requests''),
                (''response'', JStr ''slow down'')]) \<and>
   length (executions (snd (snd (request
     (new_HttpClient
        \<lparr>baseUrl = Some ''https://api.example.com'', client_timeout = None,
         defaultHeaders = None, client_retryPolicy = None\<rparr>)
     (\<lambda>u i (w::nat).
        (Resolved \<lparr>resp_ok = False, resp_status = 429,
                   resp_statusText = ''Too Many Requests'', resp_headers = Map.empty,
                   resp_json = Inr JNull, resp_text = Inr ''slow down'',
                   resp_text_parsed = None\<rparr>, Suc w))
     \<lparr>url = ''/data'', req_method = GET, headers = None, body = JUndefined, timeout = None,
      retryPolicy = None\<rparr> 0)))) = 1 \<and>
   ErrorHandler_shouldRetry
     (JObj [(''status'', JNum 503), (''statusText'', JStr ''Service Unavailable''),
            (''response'', JStr ''down'')]) = Inr True \<and>
   length (executions (snd (snd (request
     (new_HttpClient
        \<lparr>baseUrl = Some ''https://api.example.com'', client_timeout = None,
         defaultHeaders = None,
         client_retryPolicy =
           Some \<lparr>maxAttempts = 3, baseDelay = 1000, maxDelay = 10000,
                 exponentialBackoff = True, retryableErrors = Some [NETWORK]\<rparr>\<rparr>)
     (\<lambda>u i (w::nat).
        (Resolved \<lparr>resp_ok = False, resp_status = 503,
                   resp_statusText = ''Service Unavailable'', resp_headers = Map.empty,
                   resp_json = Inr JNull, resp_text = Inr ''down'',
                   resp_text_parsed = None\<rparr>, Suc w))
     \<lparr>url = ''/data'', req_method = GET, headers = None, body = JUndefined, timeout = None,
      retryPolicy = None\<rparr> 0)))) = 1"
  by code_simp

subsection \<open>The \<open>onError\<close> hooks\<close>

text \<open>
  \<open>request\<close> reads the \<open>onRequest\<close> and \<open>onResponse\<close> hooks only: its result and its trace
  are the same whatever the \<open>onError\<close> hooks of the registered interceptors are.
\<close>

lemma applyRequestInterceptors_onError:
  "applyRequestInterceptors (map (\<lambda>i. i\<lparr>onError := h i\<rparr>) ics) c =
   applyRequestInterceptors ics c"
  by (induction ics arbitrary: c) (auto split: option.splits sum.splits)

lemma applyResponseInterceptors_onError:
  "applyResponseInterceptors (map (\<lambda>i. i\<lparr>onError := h i\<rparr>) ics) r =
   applyResponseInterceptors ics r"
  by (induction ics arbitrary: r) (auto split: option.splits sum.splits)

lemma try_attempt_onError:
  "try_attempt (client\<lparr>interceptors := map (\<lambda>i. i\<lparr>onError := h i\<rparr>) (interceptors client)\<rparr>)
     fetch cfg s = try_attempt client fetch cfg s"
  by (auto simp: try_attempt_def applyRequestInterceptors_onError
        applyResponseInterceptors_onError split: sum.splits prod.splits)

lemma request_loop_onError:
  "request_loop (client\<lparr>interceptors := map (\<lambda>i. i\<lparr>onError := h i\<rparr>) (interceptors client)\<rparr>)
     fetch policy cfg attempt lastError s =
   request_loop client fetch policy cfg attempt lastError s"
proof (induction client fetch policy cfg attempt lastError s rule: request_loop.induct)
  case (1 client fetch policy fullConfig attempt lastError s)
  let ?client' = "client\<lparr>interceptors := map (\<lambda>i. i\<lparr>onError := h i\<rparr>) (interceptors client)\<rparr>"
  show ?case
  proof (cases "attempt \<le> maxAttempts policy")
    case False
    then show ?thesis
      by (subst request_loop.simps, subst (2) request_loop.simps) simp
  next
    case True
    obtain x y where t: "(x, y) = try_attempt client fetch fullConfig s"
      by (metis surj_pair)
    have t': "try_attempt ?client' fetch fullConfig s = (x, y)"
      using t by (simp add: try_attempt_onError)
    show ?thesis
    proof (cases x)
      case (Inr payload)
      then show ?thesis
        using True t [symmetric] t'
        by (subst request_loop.simps, subst (2) request_loop.simps) simp
    next
      case (Inl a)
      show ?thesis
      proof (cases "RetryPolicyHelper_shouldRetry a attempt policy")
        case (Inl e)
        then show ?thesis
          using True t [symmetric] t' \<open>x = Inl a\<close>
          by (subst request_loop.simps, subst (2) request_loop.simps) simp
      next
        case (Inr b)
        show ?thesis
        proof (cases b)
          case False
          then show ?thesis
            using True t [symmetric] t' \<open>x = Inl a\<close> Inr
            by (subst request_loop.simps, subst (2) request_loop.simps) simp
        next
          case True
          note b = this
          show ?thesis
          proof (cases "getRetryDelay a attempt policy")
            case (Inl e)
            then show ?thesis
              using \<open>attempt \<le> maxAttempts policy\<close> t [symmetric] t' \<open>x = Inl a\<close> Inr b
              by (subst request_loop.simps, subst (2) request_loop.simps) simp
          next
            case (Inr d)
            have bt: "b = True"
              using b by simp
            note ih = "1.IH" [OF \<open>attempt \<le> maxAttempts policy\<close> t \<open>x = Inl a\<close>
                               \<open>RetryPolicyHelper_shouldRetry a attempt policy = Inr b\<close> bt Inr]
            show ?thesis
              using \<open>attempt \<le> maxAttempts policy\<close> t [symmetric] t' \<open>x = Inl a\<close>
                    \<open>RetryPolicyHelper_shouldRetry a attempt policy = Inr b\<close> b Inr ih
              by (subst request_loop.simps, subst (2) request_loop.simps) simp
          qed
        qed
      qed
    qed
  qed
qed

lemma buildRequestConfig_interceptors:
  "buildRequestConfig (client\<lparr>interceptors := ics\<rparr>) cfg = buildRequestConfig client cfg"
proof -
  have c: "client_config (client\<lparr>interceptors := ics\<rparr>) = client_config client"
    by simp
  show ?thesis
    unfolding buildRequestConfig_def c ..
qed

lemma request_onError:
  "request (client\<lparr>interceptors := map (\<lambda>i. i\<lparr>onError := h i\<rparr>) (interceptors client)\<rparr>)
     fetch requestConfig w = request client fetch requestConfig w"
proof -
  have c: "client_config (client\<lparr>interceptors := map (\<lambda>i. i\<lparr>onError := h i\<rparr>) (interceptors client)\<rparr>) =
           client_config client"
    by simp
  show ?thesis
    unfolding request_def buildRequestConfig_interceptors c request_loop_onError ..
qed

text \<open>
  C1. A terminal failure is not passed to the \<open>onError\<close> hooks. With one interceptor whose
  \<open>onError\<close> hook returns the value \<open>recovered\<close>, and a transport that answers 404, the
  call still rejects with the error of the attempt.
\<close>

theorem onError_hook_is_not_invoked:
  "fst (http_get
     (addInterceptor
        (new_HttpClient
           \<lparr>baseUrl = Some ''https://api.example.com'', client_timeout = None,
            defaultHeaders = None, client_retryPolicy = None\<rparr>)
        \<lparr>onRequest = None, onResponse = None,
         onError = Some (\<lambda>e. Inr (JStr ''recovered''))\<rparr>)
     (\<lambda>u i (w::nat).
        (Resolved \<lparr>resp_ok = False, resp_status = 404, resp_statusText = ''Not Found'',
                   resp_headers = Map.empty, resp_json = Inr JNull,
                   resp_text = Inr ''missing'', resp_text_parsed = None\<rparr>, Suc w))
     ''/data'' 0) =
   Inl (JObj [(''status'', JNum 404), (''statusText'', JStr ''Not Found''),
              (''response'', JStr ''missing'')])"
  by code_simp

subsection \<open>The delays of the retry scenario\<close>

text \<open>
  For an error of category \<open>NETWORK\<close> or \<open>SYSTEM\<close> whose status is not 429 the classifier
  always supplies \<open>retryAfter = 1000\<close>, so \<open>getRetryDelay\<close> never reaches \<open>calculateDelay\<close>.
\<close>

lemma transient_delay_ignores_policy:
  assumes "categorize e = Inr cat" and "cat = NETWORK \<or> cat = SYSTEM"
      and "extractStatusCode e \<noteq> JNum 429"
  shows "getRetryDelay e attempt policy = Inr 1000"
proof -
  have r: "getRetryAfter e = Inr (JNum 1000)"
    using assms by (auto simp: getRetryAfter_def Let_def)
  obtain info where p: "parse e = Inr info"
    using parse_of_categorize [OF assms(1)] by blast
  have "retryAfter info = JNum 1000"
    using parse_retryAfter [OF p] r by simp
  then show ?thesis
    using p by (simp add: getRetryDelay_def)
qed

text \<open>
  C2. With \<open>exponentialBackoff\<close>, \<open>maxAttempts = 3\<close> and \<open>baseDelay = 100\<close>, two attempts that
  fail with a network error and a third that succeeds: the call resolves to the payload,
  and both waits are the classifier's 1000 milliseconds, where the policy's own backoff
  would be 100 and 200.
\<close>

theorem network_retry_waits_one_second:
  "fst (http_get
     (new_HttpClient
        \<lparr>baseUrl = Some ''https://api.example.com'', client_timeout = None,
         defaultHeaders = None,
         client_retryPolicy =
           Some \<lparr>maxAttempts = 3, baseDelay = 100, maxDelay = 10000,
                 exponentialBackoff = True, retryableErrors = None\<rparr>\<rparr>)
     (\<lambda>u i (w::nat).
        (if w < 2
         then Rejected (JObj [(''name'', JStr ''TypeError''),
                              (''message'', JStr ''Failed to fetch'')])
         else Resolved \<lparr>resp_ok = True, resp_status = 200, resp_statusText = ''OK'',
                        resp_headers = [''content-type'' \<mapsto> ''application/json''],
                        resp_json = Inr (JObj [(''ok'', JBool True)]),
                        resp_text = Inr [], resp_text_parsed = None\<rparr>, Suc w))
     ''/data'' 0) = Inr (JObj [(''ok'', JBool True)]) \<and>
   waits (snd (snd (http_get
     (new_HttpClient
        \<lparr>baseUrl = Some ''https://api.example.com'', client_timeout = None,
         defaultHeaders = None,
         client_retryPolicy =
           Some \<lparr>maxAttempts = 3, baseDelay = 100, maxDelay = 10000,
                 exponentialBackoff = True, retryableErrors = None\<rparr>\<rparr>)
     (\<lambda>u i (w::nat).
        (if w < 2
         then Rejected (JObj [(''name'', JStr ''TypeError''),
                              (''message'', JStr ''Failed to fetch'')])
         else Resolved \<lparr>resp_ok = True, resp_status = 200, resp_statusText = ''OK'',
                        resp_headers = [''content-type'' \<mapsto> ''application/json''],
                        resp_json = Inr (JObj [(''ok'', JBool True)]),
                        resp_text = Inr [], resp_text_parsed = None\<rparr>, Suc w))
     ''/data'' 0))) = [1000, 1000] \<and>
   map (\<lambda>a. calculateDelay a
          \<lparr>maxAttempts = 3, baseDelay = 100, maxDelay = 10000,
           exponentialBackoff = True, retryableErrors = None\<rparr>) [1, 2] = [100, 200]"
  by code_simp

end
